theory Spec2Isabelle
  imports Complex_Main "HOL-Library.Word"
begin

section \<open>JavaScript values used by the server\<close>

text \<open>
  The Express server (\<^verbatim>\<open>Server/index.js\<close>, current revision) keeps the latest fix in the
  module variable \<^verbatim>\<open>latestGPSData\<close>. Its numeric fields hold JavaScript Numbers or
  \<^verbatim>\<open>null\<close>. A Number is modelled by \<open>jsnum\<close>: \<open>Fin q\<close> stands for the binary64 value
  nearest to the exact rational \<open>q\<close> (the sign of zero is not tracked), and the three
  non-finite Numbers are constructors of their own. \<^verbatim>\<open>null\<close> is \<open>None\<close> of an option.
\<close>

datatype jsnum = NaN | PosInf | NegInf | Fin rat

fun negate :: "jsnum \<Rightarrow> jsnum" where
  "negate NaN = NaN"
| "negate PosInf = NegInf"
| "negate NegInf = PosInf"
| "negate (Fin q) = Fin (- q)"

fun isFinite :: "jsnum \<Rightarrow> bool" where
  "isFinite (Fin q) = True"
| "isFinite n = False"

text \<open>
  Rounding of an exact non-negative value to a Number: values from
  \<open>2^1024 - 2^970\<close> on round to \<^verbatim>\<open>Infinity\<close>.
\<close>

definition toNumber :: "rat \<Rightarrow> jsnum" where
  "toNumber q = (if 2 ^ 1024 - 2 ^ 970 \<le> q then PosInf else Fin q)"

text \<open>
  \<^verbatim>\<open>StrWhiteSpaceChar\<close>. A string is read as UTF-8: the one-byte characters are tab, line
  feed, vertical tab, form feed, carriage return and space; U+00A0 takes two bytes;
  U+1680, U+2000 to U+200A, U+2028, U+2029, U+202F, U+205F, U+3000 and U+FEFF take three.
\<close>

definition isWhiteSpace :: "char \<Rightarrow> bool" where
  "isWhiteSpace c = (c \<in> set [CHR '' '', CHR 0x09, CHR 0x0A, CHR 0x0B, CHR 0x0C, CHR 0x0D])"

definition isWhiteSpace2 :: "char \<Rightarrow> char \<Rightarrow> bool" where
  "isWhiteSpace2 a b = (a = CHR 0xC2 \<and> b = CHR 0xA0)"

definition isWhiteSpace3 :: "char \<Rightarrow> char \<Rightarrow> char \<Rightarrow> bool" where
  "isWhiteSpace3 a b c =
     ((a = CHR 0xE1 \<and> b = CHR 0x9A \<and> c = CHR 0x80) \<or>
      (a = CHR 0xE2 \<and> b = CHR 0x80 \<and>
         c \<in> set [CHR 0x80, CHR 0x81, CHR 0x82, CHR 0x83, CHR 0x84, CHR 0x85, CHR 0x86,
                   CHR 0x87, CHR 0x88, CHR 0x89, CHR 0x8A, CHR 0xA8, CHR 0xA9, CHR 0xAF]) \<or>
      (a = CHR 0xE2 \<and> b = CHR 0x81 \<and> c = CHR 0x9F) \<or>
      (a = CHR 0xE3 \<and> b = CHR 0x80 \<and> c = CHR 0x80) \<or>
      (a = CHR 0xEF \<and> b = CHR 0xBB \<and> c = CHR 0xBF))"

text \<open>The string without its leading white space (\<^verbatim>\<open>TrimString\<close> at the start).\<close>

fun skipWhiteSpace :: "string \<Rightarrow> string" where
  "skipWhiteSpace (a # b # c # cs) =
     (if isWhiteSpace a then skipWhiteSpace (b # c # cs)
      else if isWhiteSpace2 a b then skipWhiteSpace (c # cs)
      else if isWhiteSpace3 a b c then skipWhiteSpace cs
      else a # b # c # cs)"
| "skipWhiteSpace [a, b] =
     (if isWhiteSpace a then skipWhiteSpace [b]
      else if isWhiteSpace2 a b then []
      else [a, b])"
| "skipWhiteSpace [a] = (if isWhiteSpace a then [] else [a])"
| "skipWhiteSpace [] = []"

definition isDigit :: "char \<Rightarrow> bool" where
  "isDigit c = (c \<in> set ''0123456789'')"

definition isHexDigit :: "char \<Rightarrow> bool" where
  "isHexDigit c = (c \<in> set ''0123456789abcdefABCDEF'')"

fun indexOf :: "char \<Rightarrow> string \<Rightarrow> nat" where
  "indexOf c [] = 0"
| "indexOf c (d # ds) = (if c = d then 0 else Suc (indexOf c ds))"

definition digitVal :: "char \<Rightarrow> nat" where
  "digitVal c = (if c \<in> set ''ABCDEF'' then 10 + indexOf c ''ABCDEF''
                 else indexOf c ''0123456789abcdef'')"

definition radixValue :: "nat \<Rightarrow> string \<Rightarrow> nat" where
  "radixValue r ds = foldl (\<lambda>a c. r * a + digitVal c) 0 ds"

definition pow10 :: "int \<Rightarrow> rat" where
  "pow10 e = (if 0 \<le> e then 10 ^ nat e else 1 / 10 ^ nat (- e))"

text \<open>\<^verbatim>\<open>ToString\<close> of a query parameter: a string, or \<^verbatim>\<open>undefined\<close> when the parameter is missing.\<close>

definition toString :: "string option \<Rightarrow> string" where
  "toString v = (case v of None \<Rightarrow> ''undefined'' | Some s \<Rightarrow> s)"

text \<open>
  The value of the \<^verbatim>\<open>ExponentPart\<close> that starts the string, 0 when there is none
  (an \<^verbatim>\<open>e\<close> without digits after it is not part of the literal).
\<close>

definition exponentPart :: "string \<Rightarrow> int" where
  "exponentPart s =
     (case s of
        [] \<Rightarrow> 0
      | e # r \<Rightarrow>
          if e = CHR ''e'' \<or> e = CHR ''E'' then
            (case r of
               [] \<Rightarrow> 0
             | c # r' \<Rightarrow>
                 if c = CHR ''-'' then - int (radixValue 10 (takeWhile isDigit r'))
                 else if c = CHR ''+'' then int (radixValue 10 (takeWhile isDigit r'))
                 else int (radixValue 10 (takeWhile isDigit r)))
          else 0)"

text \<open>
  The longest prefix that is a \<^verbatim>\<open>StrUnsignedDecimalLiteral\<close>
  (\<^verbatim>\<open>Infinity\<close>, \<^verbatim>\<open>digits . digits? exp?\<close>, \<^verbatim>\<open>. digits exp?\<close>, \<^verbatim>\<open>digits exp?\<close>), as a Number;
  \<open>NaN\<close> when no prefix is one.
\<close>

definition strUnsignedDecimalLiteral :: "string \<Rightarrow> jsnum" where
  "strUnsignedDecimalLiteral s =
     (if take 8 s = ''Infinity'' then PosInf
      else
        let ip = takeWhile isDigit s;
            r1 = dropWhile isDigit s;
            hasDot = (r1 \<noteq> [] \<and> hd r1 = CHR ''.'');
            fp = (if hasDot then takeWhile isDigit (tl r1) else []);
            r2 = (if hasDot then dropWhile isDigit (tl r1) else r1)
        in if ip = [] \<and> fp = [] then NaN
           else toNumber (of_nat (radixValue 10 (ip @ fp))
                          * pow10 (exponentPart r2 - int (length fp))))"

text \<open>The global \<^verbatim>\<open>parseFloat\<close>: leading white space is skipped, then an optional sign.\<close>

definition parseFloat :: "string option \<Rightarrow> jsnum" where
  "parseFloat v =
     (case skipWhiteSpace (toString v) of
        [] \<Rightarrow> NaN
      | c # r \<Rightarrow>
          if c = CHR ''-'' then negate (strUnsignedDecimalLiteral r)
          else if c = CHR ''+'' then strUnsignedDecimalLiteral r
          else strUnsignedDecimalLiteral (c # r))"

text \<open>
  The global \<^verbatim>\<open>parseInt\<close> called with one argument: white space, a sign, an optional
  \<^verbatim>\<open>0x\<close> prefix that selects radix 16, then the longest run of digits.
\<close>

definition parseInt :: "string option \<Rightarrow> jsnum" where
  "parseInt v =
     (let s = skipWhiteSpace (toString v);
          minus = (s \<noteq> [] \<and> hd s = CHR ''-'');
          s1 = (if s \<noteq> [] \<and> (hd s = CHR ''+'' \<or> hd s = CHR ''-'') then tl s else s);
          hex = (take 2 s1 = ''0x'' \<or> take 2 s1 = ''0X'');
          s2 = (if hex then drop 2 s1 else s1);
          z = (if hex then takeWhile isHexDigit s2 else takeWhile isDigit s2);
          n = toNumber (of_nat (radixValue (if hex then 16 else 10) z))
      in if z = [] then NaN else if minus then negate n else n)"

section \<open>The latest fix on the server\<close>

text \<open>
  Timestamps: the server stores \<^verbatim>\<open>new Date().toISOString()\<close>, the viewer reads it back
  with \<^verbatim>\<open>new Date(...)\<close> and compares milliseconds. A timestamp is modelled by the
  millisecond count it denotes; the reading of the clock is an input of every function
  that calls \<^verbatim>\<open>new Date()\<close>.
\<close>

type_synonym timestamp = int

text \<open>The object held in \<^verbatim>\<open>latestGPSData\<close> (the source's field \<^verbatim>\<open>fix\<close> is \<open>fix_flag\<close>).\<close>

record gps_data =
  lat :: "jsnum option"
  lng :: "jsnum option"
  speed :: "jsnum option"
  alt :: "jsnum option"
  fix_flag :: bool
  sats :: "jsnum option"
  hdop :: "jsnum option"
  lastPacketTimestamp :: "timestamp option"
  lastFixTimestamp :: "timestamp option"
  timestamp :: "timestamp option"

text \<open>
  The packet built by the \<^verbatim>\<open>/receivedata\<close> handler. \<open>p_sats\<close> and \<open>p_hdop\<close> can be
  \<^verbatim>\<open>undefined\<close> (outer \<open>None\<close>), \<^verbatim>\<open>null\<close> (\<open>Some None\<close>) or a Number.
\<close>

record packet =
  p_fix :: bool
  p_lat :: "jsnum option"
  p_lng :: "jsnum option"
  p_speed :: "jsnum option"
  p_alt :: "jsnum option"
  p_sats :: "jsnum option option"
  p_hdop :: "jsnum option option"

text \<open>
  What \<^verbatim>\<open>latest-gps.json\<close> holds: nothing, text that \<^verbatim>\<open>JSON.parse\<close> rejects, a falsy
  JSON value (\<^verbatim>\<open>null\<close>, \<^verbatim>\<open>false\<close>, \<^verbatim>\<open>0\<close>, \<^verbatim>\<open>""\<close>), a document of the old format
  (no \<^verbatim>\<open>fix\<close> field), or a document of the current format.
\<close>

record legacy_gps =
  l_lat :: "jsnum option"
  l_lng :: "jsnum option"
  l_speed :: "jsnum option"
  l_alt :: "jsnum option"
  l_timestamp :: "timestamp option"

datatype gps_doc = NoFile | Corrupt | FalsyDoc | Legacy legacy_gps | Current gps_data

text \<open>
  The outcome of one \<^verbatim>\<open>fs.writeFileSync\<close>: it returns, or it throws and leaves the file
  holding some document (the old one, a truncated one, none).
\<close>

datatype 'd write_result = Written | Threw 'd

text \<open>
  The server's state as far as the fix is concerned: the module variable, the file, and
  the number of \<^verbatim>\<open>writeFileSync\<close> calls made on the file so far.
\<close>

record server =
  latestGPSData :: "gps_data option"
  gps_file :: gps_doc
  gps_writes :: nat

text \<open>\<^verbatim>\<open>JSON.stringify\<close> writes a Number that is not finite as \<^verbatim>\<open>null\<close>.\<close>

definition json_number :: "jsnum option \<Rightarrow> jsnum option" where
  "json_number v = (case v of None \<Rightarrow> None | Some n \<Rightarrow> if isFinite n then Some n else None)"

definition to_json :: "gps_data \<Rightarrow> gps_data" where
  "to_json d = d\<lparr>lat := json_number (lat d), lng := json_number (lng d),
                  speed := json_number (speed d), alt := json_number (alt d),
                  sats := json_number (sats d), hdop := json_number (hdop d)\<rparr>"

text \<open>The object \<^verbatim>\<open>saveLatestGPS\<close> creates when \<^verbatim>\<open>latestGPSData\<close> is still \<^verbatim>\<open>null\<close>.\<close>

definition initial_data :: "timestamp \<Rightarrow> gps_data" where
  "initial_data now =
     \<lparr>lat = None, lng = None, speed = None, alt = None, fix_flag = False,
      sats = None, hdop = None, lastPacketTimestamp = Some now,
      lastFixTimestamp = None, timestamp = None\<rparr>"

definition prior_data :: "timestamp \<Rightarrow> gps_data option \<Rightarrow> gps_data" where
  "prior_data now prior = (case prior of None \<Rightarrow> initial_data now | Some d \<Rightarrow> d)"

text \<open>
  The in-memory part of \<^verbatim>\<open>saveLatestGPS\<close> (everything before the \<^verbatim>\<open>try\<close>): the spec's
  \<^verbatim>\<open>reconcile(prior, packet, now)\<close>.
\<close>

definition reconcile :: "timestamp \<Rightarrow> gps_data option \<Rightarrow> packet \<Rightarrow> gps_data" where
  "reconcile now prior p =
     (let d0 = prior_data now prior;
          d1 = d0\<lparr>lastPacketTimestamp := Some now, fix_flag := p_fix p\<rparr>;
          d2 = (case p_sats p of None \<Rightarrow> d1 | Some v \<Rightarrow> d1\<lparr>sats := v\<rparr>);
          d3 = (case p_hdop p of None \<Rightarrow> d2 | Some v \<Rightarrow> d2\<lparr>hdop := v\<rparr>)
      in if p_fix p
         then d3\<lparr>lat := p_lat p, lng := p_lng p, speed := p_speed p, alt := p_alt p,
                 lastFixTimestamp := Some now, timestamp := Some now\<rparr>
         else d3)"

text \<open>\<^verbatim>\<open>saveLatestGPS\<close>: update the variable, then try to write the file; a throw is only logged.\<close>

definition saveLatestGPS :: "timestamp \<Rightarrow> gps_doc write_result \<Rightarrow> packet \<Rightarrow> server \<Rightarrow> server" where
  "saveLatestGPS now wr p st =
     (let d = reconcile now (latestGPSData st) p
      in st\<lparr>latestGPSData := Some d,
             gps_file := (case wr of Written \<Rightarrow> Current (to_json d) | Threw doc \<Rightarrow> doc),
             gps_writes := Suc (gps_writes st)\<rparr>)"

text \<open>
  \<^verbatim>\<open>loadLatestGPS\<close>: the variable when it is set, else the file; the old format is
  converted, with the clock standing in for a missing timestamp. A falsy document is
  assigned to the variable and returned, and is as good as \<^verbatim>\<open>null\<close> to every reader.
\<close>

definition loadLatestGPS :: "timestamp \<Rightarrow> server \<Rightarrow> gps_data option \<times> server" where
  "loadLatestGPS now st =
     (case latestGPSData st of
        Some d \<Rightarrow> (Some d, st)
      | None \<Rightarrow>
          (case gps_file st of
             NoFile \<Rightarrow> (None, st)
           | Corrupt \<Rightarrow> (None, st)
           | FalsyDoc \<Rightarrow> (None, st)
           | Legacy r \<Rightarrow>
               (let d = \<lparr>lat = l_lat r, lng = l_lng r, speed = l_speed r, alt = l_alt r,
                         fix_flag = True, sats = None, hdop = None,
                         lastPacketTimestamp =
                           Some (case l_timestamp r of None \<Rightarrow> now | Some t \<Rightarrow> t),
                         lastFixTimestamp = l_timestamp r, timestamp = l_timestamp r\<rparr>
                in (Some d, st\<lparr>latestGPSData := Some d\<rparr>))
           | Current d \<Rightarrow> (Some d, st\<lparr>latestGPSData := Some d\<rparr>)))"

section \<open>The HTTP handlers\<close>

text \<open>An entry of the credential list, on the server and on the device.\<close>

record wifi_network =
  ssid :: string
  password :: string

text \<open>
  Response bodies: text sent with \<^verbatim>\<open>res.send\<close>, the acknowledgement
  \<^verbatim>\<open>{status: 'ok', fix}\<close>, a fix document, \<^verbatim>\<open>{error: ...}\<close>, a credential list, and the
  page of Express's default error handler after an uncaught exception.
\<close>

datatype body =
    Text string
  | IngestAck bool
  | FixDoc gps_data
  | ErrorJson string
  | WifiList "wifi_network list"
  | ErrorPage

datatype response = Response (status: nat) (body: body)

text \<open>The query of \<^verbatim>\<open>GET /receivedata\<close>; a parameter that is not sent is \<^verbatim>\<open>undefined\<close>.\<close>

record ingest_query =
  q_key :: "string option"
  q_lat :: "string option"
  q_lng :: "string option"
  q_speed :: "string option"
  q_alt :: "string option"
  q_fix :: "string option"
  q_sats :: "string option"
  q_hdop :: "string option"

text \<open>\<^verbatim>\<open>checkKey\<close> lets a request through when \<^verbatim>\<open>req.query.key === process.env.API_KEY\<close>.\<close>

definition checkKey :: "string option \<Rightarrow> string option \<Rightarrow> bool" where
  "checkKey api_key key = (\<not> (key \<noteq> api_key))"

definition build_packet :: "gps_data option \<Rightarrow> ingest_query \<Rightarrow> packet" where
  "build_packet cur q =
     (let isFix = (q_fix q = Some ''true'' \<or> q_fix q = Some ''1'')
      in \<lparr>p_fix = isFix,
          p_lat = (if isFix then Some (parseFloat (q_lat q))
                   else (case cur of None \<Rightarrow> None | Some d \<Rightarrow> lat d)),
          p_lng = (if isFix then Some (parseFloat (q_lng q))
                   else (case cur of None \<Rightarrow> None | Some d \<Rightarrow> lng d)),
          p_speed = (if isFix then Some (parseFloat (q_speed q))
                     else (case cur of None \<Rightarrow> None | Some d \<Rightarrow> speed d)),
          p_alt = (if isFix then Some (parseFloat (q_alt q))
                   else (case cur of None \<Rightarrow> None | Some d \<Rightarrow> alt d)),
          p_sats = (case q_sats q of None \<Rightarrow> None
                    | Some s \<Rightarrow> Some (if s = [] then None else Some (parseInt (Some s)))),
          p_hdop = (case q_hdop q of None \<Rightarrow> None
                    | Some s \<Rightarrow> Some (if s = [] then None else Some (parseFloat (Some s))))\<rparr>)"

text \<open>\<^verbatim>\<open>app.get("/receivedata", checkKey, ...)\<close>.\<close>

definition receivedata ::
  "string option \<Rightarrow> timestamp \<Rightarrow> gps_doc write_result \<Rightarrow> ingest_query \<Rightarrow> server \<Rightarrow> response \<times> server" where
  "receivedata api_key now wr q st =
     (if \<not> checkKey api_key (q_key q) then (Response 403 (Text ''Invalid key''), st)
      else
        let p = build_packet (latestGPSData st) q
        in (Response 200 (IngestAck (p_fix p)), saveLatestGPS now wr p st))"

text \<open>\<^verbatim>\<open>app.get("/api/latest-gps", ...)\<close>; \<^verbatim>\<open>res.json\<close> serialises the object.\<close>

definition latest_gps :: "timestamp \<Rightarrow> server \<Rightarrow> response \<times> server" where
  "latest_gps now st =
     (case loadLatestGPS now st of
        (Some d, st') \<Rightarrow> (Response 200 (FixDoc (to_json d)), st')
      | (None, st') \<Rightarrow> (Response 404 (ErrorJson ''No GPS data available''), st'))"

section \<open>The credential list on the server\<close>

text \<open>What \<^verbatim>\<open>wifi.json\<close> holds: nothing, text that \<^verbatim>\<open>JSON.parse\<close> rejects, or a list.\<close>

datatype wifi_doc = NoWifiFile | BadWifiFile | WifiDoc "wifi_network list"

text \<open>\<^verbatim>\<open>loadWifiList\<close>; \<open>None\<close> is the exception of \<^verbatim>\<open>JSON.parse\<close>, which nothing catches.\<close>

definition loadWifiList :: "wifi_doc \<Rightarrow> wifi_network list option" where
  "loadWifiList f = (case f of NoWifiFile \<Rightarrow> Some [] | BadWifiFile \<Rightarrow> None | WifiDoc l \<Rightarrow> Some l)"

text \<open>\<^verbatim>\<open>Array.prototype.findIndex\<close>: the first index whose element satisfies the test, else -1.\<close>

fun findIndex :: "('a \<Rightarrow> bool) \<Rightarrow> 'a list \<Rightarrow> int" where
  "findIndex P [] = - 1"
| "findIndex P (x # xs) =
     (if P x then 0 else (let i = findIndex P xs in if i < 0 then - 1 else i + 1))"

text \<open>The update of the list in \<^verbatim>\<open>app.put("/wifi", ...)\<close>.\<close>

definition upsert :: "wifi_network list \<Rightarrow> string \<Rightarrow> string \<Rightarrow> wifi_network list" where
  "upsert list s pw =
     (let idx = findIndex (\<lambda>n. ssid n = s) list
      in if 0 \<le> idx then list[nat idx := (list ! nat idx)\<lparr>password := pw\<rparr>]
         else list @ [\<lparr>ssid = s, password = pw\<rparr>])"

text \<open>
  The JSON object in the body of \<^verbatim>\<open>PUT /wifi\<close>; a member that is not sent is
  \<^verbatim>\<open>undefined\<close>. A request without any JSON body is not among the inputs.
\<close>

record put_body =
  b_ssid :: "string option"
  b_password :: "string option"

definition falsy :: "string option \<Rightarrow> bool" where
  "falsy v = (case v of None \<Rightarrow> True | Some s \<Rightarrow> s = [])"

text \<open>\<^verbatim>\<open>app.put("/wifi", checkKey, ...)\<close>, on the file \<^verbatim>\<open>wifi.json\<close>.\<close>

definition put_wifi ::
  "string option \<Rightarrow> string option \<Rightarrow> wifi_doc write_result \<Rightarrow> put_body \<Rightarrow> wifi_doc
     \<Rightarrow> response \<times> wifi_doc" where
  "put_wifi api_key key wr b f =
     (if \<not> checkKey api_key key then (Response 403 (Text ''Invalid key''), f)
      else if falsy (b_ssid b) \<or> falsy (b_password b)
      then (Response 400 (Text ''Missing ssid or password''), f)
      else
        (case loadWifiList f of
           None \<Rightarrow> (Response 500 ErrorPage, f)
         | Some list \<Rightarrow>
             (let list' = upsert list (the (b_ssid b)) (the (b_password b))
              in case wr of
                   Written \<Rightarrow> (Response 200 (WifiList list'), WifiDoc list')
                 | Threw f' \<Rightarrow> (Response 500 ErrorPage, f'))))"

section \<open>The viewer\<close>

text \<open>The fields of \<^verbatim>\<open>GPSTracker\<close> (\<^verbatim>\<open>public/tracker.js\<close>) that the connection status reads.\<close>

record tracker =
  isConnected :: bool
  hasFix :: bool
  lastFixTime :: "timestamp option"
  lastPacketTime :: "timestamp option"

text \<open>
  \<^verbatim>\<open>fetchLatestGPSData\<close>: the parsed body when the response is ok, \<^verbatim>\<open>undefined\<close> when it
  is not or when \<^verbatim>\<open>fetch\<close> fails (\<open>None\<close> as the argument). The argument is a response of
  \<^verbatim>\<open>/api/latest-gps\<close>, whose body is a fix document whenever the status is ok; the other
  bodies are given no reading as a fix document.
\<close>

definition fetchLatestGPSData :: "response option \<Rightarrow> gps_data option" where
  "fetchLatestGPSData r =
     (case r of
        None \<Rightarrow> None
      | Some (Response code b) \<Rightarrow>
          (case b of FixDoc d \<Rightarrow> if 200 \<le> code \<and> code \<le> 299 then Some d else None
                   | _ \<Rightarrow> None))"

text \<open>The assignments of \<^verbatim>\<open>updateGPSData\<close> to the tracker's fields.\<close>

definition updateGPSData_fields :: "gps_data option \<Rightarrow> tracker \<Rightarrow> tracker" where
  "updateGPSData_fields dat tr =
     (case dat of
        Some d \<Rightarrow>
          tr\<lparr>isConnected := True, hasFix := fix_flag d,
             lastPacketTime :=
               (case lastPacketTimestamp d of Some t \<Rightarrow> Some t | None \<Rightarrow> lastPacketTime tr),
             lastFixTime :=
               (case lastFixTimestamp d of Some t \<Rightarrow> Some t | None \<Rightarrow> lastFixTime tr)\<rparr>
      | None \<Rightarrow> tr\<lparr>isConnected := False\<rparr>)"

text \<open>
  \<^verbatim>\<open>updateConnectionStatus\<close>: the text it leaves in the \<^verbatim>\<open>connectionStatus\<close> element,
  given the text the element had.
\<close>

definition updateConnectionStatus :: "timestamp \<Rightarrow> tracker \<Rightarrow> string \<Rightarrow> string" where
  "updateConnectionStatus now tr old =
     (let stale = (case lastPacketTime tr of Some t \<Rightarrow> now - t > 60000 | None \<Rightarrow> False)
      in if \<not> isConnected tr \<or> stale then ''Offline''
         else if isConnected tr \<and> \<not> hasFix tr then ''No GPS Signal''
         else if isConnected tr \<and> hasFix tr then ''Online''
         else old)"

text \<open>
  With a fix, \<^verbatim>\<open>updateGPSData\<close> first draws the position: \<^verbatim>\<open>updateDataDisplay\<close> calls
  \<^verbatim>\<open>toFixed\<close> on \<^verbatim>\<open>data.lat\<close>, \<^verbatim>\<open>data.lng\<close> and \<^verbatim>\<open>data.alt\<close>, which throws on \<^verbatim>\<open>null\<close>.
\<close>

definition display_throws :: "gps_data \<Rightarrow> bool" where
  "display_throws d = (fix_flag d \<and> (lat d = None \<or> lng d = None \<or> alt d = None))"

text \<open>
  \<^verbatim>\<open>updateGPSData\<close>: the tracker and the status text after one poll. When drawing throws,
  the fields are already assigned and the status text is left as it was.
\<close>

definition updateGPSData ::
  "timestamp \<Rightarrow> response option \<Rightarrow> tracker \<Rightarrow> string \<Rightarrow> tracker \<times> string" where
  "updateGPSData now r tr old =
     (let dat = fetchLatestGPSData r;
          tr' = updateGPSData_fields dat tr
      in case dat of
           Some d \<Rightarrow>
             if display_throws d then (tr', old)
             else (tr', updateConnectionStatus now tr' old)
         | None \<Rightarrow> (tr', updateConnectionStatus now tr' old))"

section \<open>The device\<close>

text \<open>
  The firmware (\<^verbatim>\<open>ESP32/client.c\<close>). Its globals and the contents of \<^verbatim>\<open>/wifi.json\<close> on
  SPIFFS form the state; \<open>events\<close> records, in order, every connection attempt and
  every HTTP GET of the credential list. \<^verbatim>\<open>unsigned long\<close> has 32 bits on the ESP32.
\<close>

datatype event = TryConnect string string | HttpGetWifi

record device =
  wifi_connected :: bool
  dynamicNetworks :: "wifi_network list"
  inBackoff :: bool
  lastReconnectAttempt :: "32 word"
  spiffs_wifi :: "wifi_network list option"
  events :: "event list"

text \<open>
  What the device meets: whether an access point accepts a connection within the ten
  seconds of \<^verbatim>\<open>tryConnect\<close>, what the GET of the list returns (\<open>Some\<close> for status 200 with
  a JSON array), and whether the file on SPIFFS can be opened for writing. The
  connection is taken to stay up between a successful \<^verbatim>\<open>tryConnect\<close> and the
  \<^verbatim>\<open>WiFi.status()\<close> test that follows it.
\<close>

record environment =
  reachable :: "string \<Rightarrow> string \<Rightarrow> bool"
  api_list :: "wifi_network list option"
  spiffs_writable :: bool

definition defaultSSID :: string where
  "defaultSSID = ''TP-Link_2.4GHz''"

definition defaultPASS :: string where
  "defaultPASS = ''password123''"

definition esp_saveWifiList :: "environment \<Rightarrow> device \<Rightarrow> device" where
  "esp_saveWifiList env dev =
     (if spiffs_writable env then dev\<lparr>spiffs_wifi := Some (dynamicNetworks dev)\<rparr> else dev)"

definition esp_loadWifiList :: "device \<Rightarrow> device" where
  "esp_loadWifiList dev =
     (case spiffs_wifi dev of None \<Rightarrow> dev | Some l \<Rightarrow> dev\<lparr>dynamicNetworks := l\<rparr>)"

definition fetchWifiList :: "environment \<Rightarrow> device \<Rightarrow> device" where
  "fetchWifiList env dev =
     (if \<not> wifi_connected dev then dev
      else
        let dev1 = dev\<lparr>events := events dev @ [HttpGetWifi]\<rparr>
        in case api_list env of
             Some l \<Rightarrow> esp_saveWifiList env (dev1\<lparr>dynamicNetworks := l\<rparr>)
           | None \<Rightarrow> dev1)"

definition tryConnect :: "environment \<Rightarrow> string \<Rightarrow> string \<Rightarrow> device \<Rightarrow> bool \<times> device" where
  "tryConnect env s pw dev =
     (reachable env s pw,
      dev\<lparr>wifi_connected := reachable env s pw, events := events dev @ [TryConnect s pw]\<rparr>)"

text \<open>The \<^verbatim>\<open>for\<close> loop of \<^verbatim>\<open>connectWiFi\<close> over the learned networks; \<open>True\<close> when one connected.\<close>

fun try_dynamic :: "environment \<Rightarrow> wifi_network list \<Rightarrow> device \<Rightarrow> bool \<times> device" where
  "try_dynamic env [] dev = (False, dev)"
| "try_dynamic env (n # ns) dev =
     (case tryConnect env (ssid n) (password n) dev of
        (True, dev') \<Rightarrow> (True, dev'\<lparr>inBackoff := False\<rparr>)
      | (False, dev') \<Rightarrow> try_dynamic env ns dev')"

text \<open>\<^verbatim>\<open>connectWiFi()\<close>; \<open>millis\<close> is the reading of \<^verbatim>\<open>millis()\<close> when the backoff starts.\<close>

definition connectWiFi :: "environment \<Rightarrow> 32 word \<Rightarrow> device \<Rightarrow> device" where
  "connectWiFi env millis dev =
     (if wifi_connected dev then dev
      else
        case try_dynamic env (dynamicNetworks dev) dev of
          (True, dev') \<Rightarrow> dev'
        | (False, dev') \<Rightarrow>
            (case tryConnect env defaultSSID defaultPASS dev' of
               (True, dev'') \<Rightarrow> fetchWifiList env (dev''\<lparr>inBackoff := False\<rparr>)
             | (False, dev'') \<Rightarrow> dev''\<lparr>inBackoff := True, lastReconnectAttempt := millis\<rparr>))"

text \<open>
  The state in which \<^verbatim>\<open>setup()\<close> starts, given what SPIFFS holds, and \<^verbatim>\<open>setup()\<close> itself
  (\<open>esp_setup\<close>) as far as the network is concerned.
\<close>

definition boot :: "wifi_network list option \<Rightarrow> device" where
  "boot saved =
     \<lparr>wifi_connected = False, dynamicNetworks = [], inBackoff = False,
      lastReconnectAttempt = 0, spiffs_wifi = saved, events = []\<rparr>"

definition esp_setup :: "environment \<Rightarrow> 32 word \<Rightarrow> wifi_network list option \<Rightarrow> device" where
  "esp_setup env millis saved =
     fetchWifiList env (connectWiFi env millis (esp_loadWifiList (boot saved)))"

text \<open>
  The reconnection at the head of \<^verbatim>\<open>loop()\<close>. \<open>t\<close> is the reading of \<^verbatim>\<open>millis()\<close> in the
  test, \<open>millis\<close> the later one inside \<^verbatim>\<open>connectWiFi()\<close>.
\<close>

definition loop_reconnect :: "environment \<Rightarrow> 32 word \<Rightarrow> 32 word \<Rightarrow> device \<Rightarrow> device" where
  "loop_reconnect env t millis dev =
     (if \<not> wifi_connected dev then
        (if \<not> inBackoff dev then connectWiFi env millis dev
         else if t - lastReconnectAttempt dev > 30000 then connectWiFi env millis dev
         else dev)
      else dev)"

text \<open>The list \<^verbatim>\<open>loadWifiList()\<close> leaves in \<^verbatim>\<open>dynamicNetworks\<close> at boot.\<close>

definition saved_list :: "wifi_network list option \<Rightarrow> wifi_network list" where
  "saved_list saved = (case saved of None \<Rightarrow> [] | Some l \<Rightarrow> l)"

text \<open>The number of GETs of the credential list among the events.\<close>

definition fetches :: "device \<Rightarrow> nat" where
  "fetches dev = count_list (events dev) HttpGetWifi"

section \<open>Runs of the reconciler\<close>

text \<open>A sequence of \<^verbatim>\<open>saveLatestGPS\<close> calls, each with the clock reading it sees.\<close>

fun reconcile_all :: "gps_data option \<Rightarrow> (timestamp \<times> packet) list \<Rightarrow> gps_data option" where
  "reconcile_all cur [] = cur"
| "reconcile_all cur ((now, p) # rest) = reconcile_all (Some (reconcile now cur p)) rest"

text \<open>\<^verbatim>\<open>lastFixAt \<le> lastPacketAt\<close>; nothing is asked while no fix has been seen.\<close>

definition fix_before_packet :: "gps_data \<Rightarrow> bool" where
  "fix_before_packet d =
     (case lastFixTimestamp d of
        None \<Rightarrow> True
      | Some f \<Rightarrow> (case lastPacketTimestamp d of None \<Rightarrow> False | Some t \<Rightarrow> f \<le> t))"

section \<open>Sample inputs\<close>

text \<open>A packet with a fix and one without, as \<^verbatim>\<open>saveLatestGPS\<close> receives them.\<close>

definition fix_packet :: packet where
  "fix_packet =
     \<lparr>p_fix = True, p_lat = Some (Fin 52), p_lng = Some (Fin 4), p_speed = Some (Fin 3),
      p_alt = Some (Fin 12), p_sats = None, p_hdop = None\<rparr>"

definition nofix_packet :: packet where
  "nofix_packet =
     \<lparr>p_fix = False, p_lat = None, p_lng = None, p_speed = None, p_alt = None,
      p_sats = Some (Some (Fin 3)), p_hdop = None\<rparr>"

text \<open>A server that has seen no packet and has no file, and one that holds a fix.\<close>

definition empty_server :: server where
  "empty_server = \<lparr>latestGPSData = None, gps_file = NoFile, gps_writes = 0\<rparr>"

definition fixed_server :: server where
  "fixed_server =
     \<lparr>latestGPSData =
        Some \<lparr>lat = Some (Fin 52), lng = Some (Fin 4), speed = Some (Fin 3),
              alt = Some (Fin 12), fix_flag = True, sats = Some (Fin 7), hdop = Some (Fin 1),
              lastPacketTimestamp = Some 500, lastFixTimestamp = Some 500,
              timestamp = Some 500\<rparr>,
      gps_file = NoFile, gps_writes = 1\<rparr>"

text \<open>
  A server process that has just started: the variable is \<^verbatim>\<open>null\<close> and
  \<^verbatim>\<open>latest-gps.json\<close> holds the fix the previous process wrote.
\<close>

definition stored_fix :: gps_data where
  "stored_fix =
     \<lparr>lat = Some (Fin 52), lng = Some (Fin 4), speed = Some (Fin 3), alt = Some (Fin 12),
      fix_flag = True, sats = Some (Fin 7), hdop = Some (Fin 1),
      lastPacketTimestamp = Some 500, lastFixTimestamp = Some 500, timestamp = Some 500\<rparr>"

definition restarted_server :: server where
  "restarted_server = \<lparr>latestGPSData = None, gps_file = Current stored_fix, gps_writes = 0\<rparr>"

text \<open>
  \<^verbatim>\<open>/receivedata?key=k&fix=true&lng=4.9&speed=3.2&alt=12.5\<close> (no \<^verbatim>\<open>lat\<close>) and
  \<^verbatim>\<open>/receivedata?key=k&fix=false&sats=3\<close>.
\<close>

definition nolat_query :: ingest_query where
  "nolat_query =
     \<lparr>q_key = Some ''k'', q_lat = None, q_lng = Some ''4.9'', q_speed = Some ''3.2'',
      q_alt = Some ''12.5'', q_fix = Some ''true'', q_sats = None, q_hdop = None\<rparr>"

definition sats_query :: ingest_query where
  "sats_query =
     \<lparr>q_key = Some ''k'', q_lat = None, q_lng = None, q_speed = None, q_alt = None,
      q_fix = Some ''false'', q_sats = Some ''3'', q_hdop = None\<rparr>"

text \<open>A fix document stamped 100000 ms, and a tracker that has not polled yet.\<close>

definition online_doc :: gps_data where
  "online_doc =
     \<lparr>lat = Some (Fin 52), lng = Some (Fin 4), speed = Some (Fin 3), alt = Some (Fin 12),
      fix_flag = True, sats = Some (Fin 7), hdop = Some (Fin 1),
      lastPacketTimestamp = Some 100000, lastFixTimestamp = Some 100000,
      timestamp = Some 100000\<rparr>"

definition new_tracker :: tracker where
  "new_tracker =
     \<lparr>isConnected = False, hasFix = False, lastFixTime = None, lastPacketTime = None\<rparr>"

text \<open>
  A device whose SPIFFS holds one learned network, \<^verbatim>\<open>home\<close>, in a place where only that
  network answers and the server does not.
\<close>

definition home_env :: environment where
  "home_env = \<lparr>reachable = (\<lambda>s pw. s = ''home''), api_list = None, spiffs_writable = True\<rparr>"

definition home_list :: "wifi_network list" where
  "home_list = [\<lparr>ssid = ''home'', password = ''pw''\<rparr>]"

section \<open>Basic facts\<close>

lemmas parse_eval = parseFloat_def parseInt_def toString_def isWhiteSpace_def
  isWhiteSpace2_def isWhiteSpace3_def
  strUnsignedDecimalLiteral_def isDigit_def isHexDigit_def radixValue_def digitVal_def pow10_def
  exponentPart_def toNumber_def

lemma parseFloat_undefined: "parseFloat None = NaN"
  by (simp add: parseFloat_def toString_def isWhiteSpace_def isWhiteSpace2_def
      isWhiteSpace3_def strUnsignedDecimalLiteral_def isDigit_def)

lemma reconcile_position:
  "lat (reconcile now prior p) = (if p_fix p then p_lat p else lat (prior_data now prior))"
  "lng (reconcile now prior p) = (if p_fix p then p_lng p else lng (prior_data now prior))"
  "speed (reconcile now prior p) = (if p_fix p then p_speed p else speed (prior_data now prior))"
  "alt (reconcile now prior p) = (if p_fix p then p_alt p else alt (prior_data now prior))"
  by (simp_all add: reconcile_def Let_def split: option.splits)

lemma reconcile_times:
  "lastPacketTimestamp (reconcile now prior p) = Some now"
  "lastFixTimestamp (reconcile now prior p) =
     (if p_fix p then Some now else lastFixTimestamp (prior_data now prior))"
  "timestamp (reconcile now prior p) =
     (if p_fix p then Some now else timestamp (prior_data now prior))"
  "fix_flag (reconcile now prior p) = p_fix p"
  by (simp_all add: reconcile_def Let_def split: option.splits)

lemma reconcile_diag:
  "sats (reconcile now prior p) =
     (case p_sats p of None \<Rightarrow> sats (prior_data now prior) | Some v \<Rightarrow> v)"
  "hdop (reconcile now prior p) =
     (case p_hdop p of None \<Rightarrow> hdop (prior_data now prior) | Some v \<Rightarrow> v)"
  by (simp_all add: reconcile_def Let_def split: option.splits)

lemma saveLatestGPS_mem:
  "latestGPSData (saveLatestGPS now wr p st) = Some (reconcile now (latestGPSData st) p)"
  by (simp add: saveLatestGPS_def Let_def)

lemma build_packet_fix:
  "p_fix (build_packet cur q) = (q_fix q = Some ''true'' \<or> q_fix q = Some ''1'')"
  by (simp add: build_packet_def Let_def)

lemma receivedata_ok:
  assumes "checkKey api_key (q_key q)"
  shows "receivedata api_key now wr q st =
     (Response 200 (IngestAck (q_fix q = Some ''true'' \<or> q_fix q = Some ''1'')),
      saveLatestGPS now wr (build_packet (latestGPSData st) q) st)"
  using assms by (simp add: receivedata_def Let_def build_packet_fix)

section \<open>The reconciler\<close>

text \<open>
  On the variable alone, \<^verbatim>\<open>saveLatestGPS\<close> does what the reconciler is meant to do: a
  packet whose \<^verbatim>\<open>fix\<close> is true stores exactly the packet's \<^verbatim>\<open>lat\<close>, \<^verbatim>\<open>lng\<close>, \<^verbatim>\<open>speed\<close> and
  \<^verbatim>\<open>alt\<close> and sets \<^verbatim>\<open>lastFixTimestamp\<close> to the clock reading; with a packet whose \<^verbatim>\<open>fix\<close>
  is false the four fields keep the values the variable had, and are \<^verbatim>\<open>null\<close> when the
  variable was \<^verbatim>\<open>null\<close>. The file is not consulted.
\<close>

lemma saveLatestGPS_position:
  "\<exists>d'. latestGPSData (saveLatestGPS now wr p st) = Some d' \<and>
     (p_fix p \<longrightarrow>
        lat d' = p_lat p \<and> lng d' = p_lng p \<and> speed d' = p_speed p \<and> alt d' = p_alt p \<and>
        lastFixTimestamp d' = Some now) \<and>
     (\<not> p_fix p \<longrightarrow>
        lat d' = (case latestGPSData st of None \<Rightarrow> None | Some d \<Rightarrow> lat d) \<and>
        lng d' = (case latestGPSData st of None \<Rightarrow> None | Some d \<Rightarrow> lng d) \<and>
        speed d' = (case latestGPSData st of None \<Rightarrow> None | Some d \<Rightarrow> speed d) \<and>
        alt d' = (case latestGPSData st of None \<Rightarrow> None | Some d \<Rightarrow> alt d))"
  by (simp add: saveLatestGPS_mem reconcile_position reconcile_times prior_data_def
      initial_data_def split: option.splits)

text \<open>
  Claim C1 fails on the code after a restart. The fix state is the variable mirrored in
  \<^verbatim>\<open>latest-gps.json\<close>, but only \<^verbatim>\<open>loadLatestGPS\<close>, on the read path, takes the file into
  the variable; \<^verbatim>\<open>/receivedata\<close> and \<^verbatim>\<open>saveLatestGPS\<close> do not. On a process that has just
  started with a fix at 52, 4 in the file, \<^verbatim>\<open>/receivedata?key=k&fix=false&sats=3\<close> finds
  the variable \<^verbatim>\<open>null\<close>, takes this for the first packet ever, and leaves \<^verbatim>\<open>lat\<close>, \<^verbatim>\<open>lng\<close>,
  \<^verbatim>\<open>speed\<close> and \<^verbatim>\<open>alt\<close> \<^verbatim>\<open>null\<close> in the variable and in the file, where the prior state had
  52, 4, 3 and 12. Had \<^verbatim>\<open>/api/latest-gps\<close> been read first, the same request would have
  kept them.
\<close>

theorem C1_restart_loses_position:
  "receivedata (Some ''k'') 1000 Written sats_query restarted_server =
     (Response 200 (IngestAck False),
      \<lparr>latestGPSData =
         Some \<lparr>lat = None, lng = None, speed = None, alt = None, fix_flag = False,
               sats = Some (Fin 3), hdop = None, lastPacketTimestamp = Some 1000,
               lastFixTimestamp = None, timestamp = None\<rparr>,
       gps_file =
         Current \<lparr>lat = None, lng = None, speed = None, alt = None, fix_flag = False,
                  sats = Some (Fin 3), hdop = None, lastPacketTimestamp = Some 1000,
                  lastFixTimestamp = None, timestamp = None\<rparr>,
       gps_writes = 1\<rparr>) \<and>
   latest_gps 900 restarted_server =
     (Response 200 (FixDoc stored_fix), restarted_server\<lparr>latestGPSData := Some stored_fix\<rparr>) \<and>
   map_option lat
      (latestGPSData
         (snd (receivedata (Some ''k'') 1000 Written sats_query
                 (snd (latest_gps 900 restarted_server)))))
     = Some (Some (Fin 52))"
  by (simp add: receivedata_def checkKey_def sats_query_def restarted_server_def stored_fix_def
      build_packet_def saveLatestGPS_def reconcile_def prior_data_def initial_data_def
      to_json_def json_number_def latest_gps_def loadLatestGPS_def Let_def parse_eval)

text \<open>
  One call keeps the invariant when the clock has not gone back since the last packet.
\<close>

lemma fix_before_packet_reconcile:
  assumes "fix_before_packet d" and "lastPacketTimestamp d = Some t" and "t \<le> now"
  shows "fix_before_packet (reconcile now (Some d) p)"
  using assms
  by (auto simp: fix_before_packet_def reconcile_times prior_data_def split: option.splits)

lemma fix_before_packet_first: "fix_before_packet (reconcile now None p)"
  by (auto simp: fix_before_packet_def reconcile_times prior_data_def initial_data_def
      split: option.splits)

lemma reconcile_all_invariant:
  assumes "fix_before_packet d" and "lastPacketTimestamp d = Some t"
    and "sorted (t # map fst calls)"
  shows "\<exists>d'. reconcile_all (Some d) calls = Some d' \<and> fix_before_packet d' \<and>
           lastPacketTimestamp d' = Some (last (t # map fst calls))"
  using assms
proof (induction calls arbitrary: d t)
  case Nil
  then show ?case by simp
next
  case (Cons c calls)
  obtain now p where c: "c = (now, p)" by (cases c)
  from Cons.prems have le: "t \<le> now" and srt: "sorted (now # map fst calls)"
    by (simp_all add: c)
  have inv: "fix_before_packet (reconcile now (Some d) p)"
    using Cons.prems(1,2) le by (rule fix_before_packet_reconcile)
  have lp: "lastPacketTimestamp (reconcile now (Some d) p) = Some now"
    by (simp add: reconcile_times)
  from Cons.IH [OF inv lp srt] show ?case by (simp add: c)
qed

text \<open>
  Claim C3, as the code has it. Every call of \<^verbatim>\<open>saveLatestGPS\<close> sets
  \<^verbatim>\<open>lastPacketTimestamp\<close> to the clock reading; \<^verbatim>\<open>lastFixTimestamp\<close> is set, to the same
  reading, exactly by the packets whose \<^verbatim>\<open>fix\<close> is true, and is otherwise left alone.
  For every non-empty sequence of calls from the absent state whose clock readings never
  decrease, the resulting object satisfies \<^verbatim>\<open>lastFixTimestamp \<le> lastPacketTimestamp\<close>
  and its \<^verbatim>\<open>lastPacketTimestamp\<close> is the reading of the last call.
\<close>

theorem C3_fix_before_packet:
  "lastPacketTimestamp (reconcile now prior p) = Some now \<and>
   lastFixTimestamp (reconcile now prior p) =
     (if p_fix p then Some now else lastFixTimestamp (prior_data now prior)) \<and>
   (sorted (map fst calls) \<longrightarrow> calls \<noteq> [] \<longrightarrow>
      (\<exists>d. reconcile_all None calls = Some d \<and> fix_before_packet d \<and>
           lastPacketTimestamp d = Some (fst (last calls))))"
proof (intro conjI impI)
  assume srt: "sorted (map fst calls)" and ne: "calls \<noteq> []"
  then obtain c rest where calls: "calls = c # rest" by (cases calls) auto
  obtain t p0 where c: "c = (t, p0)" by (cases c)
  have inv: "fix_before_packet (reconcile t None p0)" by (rule fix_before_packet_first)
  have lp: "lastPacketTimestamp (reconcile t None p0) = Some t" by (simp add: reconcile_times)
  from srt have "sorted (t # map fst rest)" by (simp add: calls c)
  from reconcile_all_invariant [OF inv lp this]
  show "\<exists>d. reconcile_all None calls = Some d \<and> fix_before_packet d \<and>
           lastPacketTimestamp d = Some (fst (last calls))"
    by (auto simp: calls c last_map)
qed (simp_all add: reconcile_times)

theorem C3_fix_before_packet_witness:
  "\<exists>d. reconcile_all None [(5, fix_packet), (10, nofix_packet)] = Some d \<and>
       fix_before_packet d \<and> lastPacketTimestamp d = Some 10"
  using C3_fix_before_packet [of 0 None fix_packet "[(5, fix_packet), (10, nofix_packet)]"]
  by simp

text \<open>
  Claim C3, as stated, fails when the clock steps back between two calls: a fix stamped
  10 followed by a packet without fix stamped 5 leaves \<^verbatim>\<open>lastFixTimestamp = 10\<close> above
  \<^verbatim>\<open>lastPacketTimestamp = 5\<close>.
\<close>

theorem C3_clock_steps_back:
  "map_option fix_before_packet (reconcile_all None [(10, fix_packet), (5, nofix_packet)])
     = Some False"
  by (simp add: fix_before_packet_def reconcile_times prior_data_def fix_packet_def
      nofix_packet_def)

text \<open>
  On the variable alone, \<^verbatim>\<open>saveLatestGPS\<close> overwrites \<^verbatim>\<open>sats\<close> (and \<^verbatim>\<open>hdop\<close>) exactly when
  the packet's field is not \<^verbatim>\<open>undefined\<close>, and otherwise keeps the value the variable had
  (\<^verbatim>\<open>null\<close> when the variable was \<^verbatim>\<open>null\<close>). Through the handler: a request that passes
  \<^verbatim>\<open>checkKey\<close> and does not send the parameter leaves the variable's value as it was; one
  that sends it stores \<^verbatim>\<open>null\<close> for the empty string and the parsed Number otherwise.
\<close>

lemma saveLatestGPS_diagnostics:
  "(\<exists>d'. latestGPSData (saveLatestGPS now wr p st) = Some d' \<and>
      sats d' = (case p_sats p of
                   None \<Rightarrow> (case latestGPSData st of None \<Rightarrow> None | Some d \<Rightarrow> sats d)
                 | Some v \<Rightarrow> v) \<and>
      hdop d' = (case p_hdop p of
                   None \<Rightarrow> (case latestGPSData st of None \<Rightarrow> None | Some d \<Rightarrow> hdop d)
                 | Some v \<Rightarrow> v)) \<and>
   (checkKey api_key (q_key q) \<longrightarrow>
      (\<exists>d'. latestGPSData (snd (receivedata api_key now wr q st)) = Some d' \<and>
         sats d' = (case q_sats q of
                      None \<Rightarrow> (case latestGPSData st of None \<Rightarrow> None | Some d \<Rightarrow> sats d)
                    | Some s \<Rightarrow> if s = [] then None else Some (parseInt (Some s))) \<and>
         hdop d' = (case q_hdop q of
                      None \<Rightarrow> (case latestGPSData st of None \<Rightarrow> None | Some d \<Rightarrow> hdop d)
                    | Some s \<Rightarrow> if s = [] then None else Some (parseFloat (Some s)))))"
proof (intro conjI impI)
  show "\<exists>d'. latestGPSData (saveLatestGPS now wr p st) = Some d' \<and>
      sats d' = (case p_sats p of
                   None \<Rightarrow> (case latestGPSData st of None \<Rightarrow> None | Some d \<Rightarrow> sats d)
                 | Some v \<Rightarrow> v) \<and>
      hdop d' = (case p_hdop p of
                   None \<Rightarrow> (case latestGPSData st of None \<Rightarrow> None | Some d \<Rightarrow> hdop d)
                 | Some v \<Rightarrow> v)"
    by (simp add: saveLatestGPS_mem reconcile_diag prior_data_def initial_data_def
        split: option.splits)
next
  assume "checkKey api_key (q_key q)"
  from receivedata_ok [OF this, of now wr st]
  show "\<exists>d'. latestGPSData (snd (receivedata api_key now wr q st)) = Some d' \<and>
         sats d' = (case q_sats q of
                      None \<Rightarrow> (case latestGPSData st of None \<Rightarrow> None | Some d \<Rightarrow> sats d)
                    | Some s \<Rightarrow> if s = [] then None else Some (parseInt (Some s))) \<and>
         hdop d' = (case q_hdop q of
                      None \<Rightarrow> (case latestGPSData st of None \<Rightarrow> None | Some d \<Rightarrow> hdop d)
                    | Some s \<Rightarrow> if s = [] then None else Some (parseFloat (Some s)))"
    by (simp add: saveLatestGPS_mem reconcile_diag prior_data_def initial_data_def
        build_packet_def Let_def split: option.splits)
qed

text \<open>
  Claim C9 fails on the code after a restart, by the same omission as claim C1: the
  write path never takes \<^verbatim>\<open>latest-gps.json\<close> into the variable. On a process that has
  just started with \<^verbatim>\<open>hdop\<close> 1 in the file, \<^verbatim>\<open>/receivedata?key=k&fix=false&sats=3\<close>, which
  sends no \<^verbatim>\<open>hdop\<close>, leaves \<^verbatim>\<open>hdop\<close> \<^verbatim>\<open>null\<close> in the variable and in the file: the stored
  value is cleared, not carried forward. Had \<^verbatim>\<open>/api/latest-gps\<close> been read first, the
  same request would have kept it.
\<close>

theorem C9_restart_clears_hdop:
  "q_hdop sats_query = None \<and>
   (case gps_file restarted_server of Current d \<Rightarrow> hdop d | _ \<Rightarrow> None) = Some (Fin 1) \<and>
   map_option hdop
      (latestGPSData (snd (receivedata (Some ''k'') 1000 Written sats_query restarted_server)))
     = Some None \<and>
   (case gps_file (snd (receivedata (Some ''k'') 1000 Written sats_query restarted_server)) of
      Current d \<Rightarrow> Some (hdop d, sats d) | _ \<Rightarrow> None) = Some (None, Some (Fin 3)) \<and>
   map_option hdop
      (latestGPSData
         (snd (receivedata (Some ''k'') 1000 Written sats_query
                 (snd (latest_gps 900 restarted_server)))))
     = Some (Some (Fin 1))"
  by (simp add: receivedata_def checkKey_def sats_query_def restarted_server_def stored_fix_def
      build_packet_def saveLatestGPS_def reconcile_def prior_data_def initial_data_def
      to_json_def json_number_def latest_gps_def loadLatestGPS_def Let_def parse_eval)

section \<open>The ingest endpoint\<close>

text \<open>
  Claim C4, as stated, fails: the handler has no validation and no 400 response. The
  request \<^verbatim>\<open>/receivedata?key=k&fix=true&lng=4.9&speed=3.2&alt=12.5\<close>, which sends no
  \<^verbatim>\<open>lat\<close>, is answered 200 with \<^verbatim>\<open>{status: 'ok', fix: true}\<close>; \<^verbatim>\<open>lat\<close> is stored as \<^verbatim>\<open>NaN\<close>
  in memory and written as \<^verbatim>\<open>null\<close> to the file.
\<close>

theorem C4_missing_lat_accepted:
  "receivedata (Some ''k'') 1000 Written nolat_query empty_server =
     (Response 200 (IngestAck True),
      \<lparr>latestGPSData =
         Some \<lparr>lat = Some NaN, lng = Some (Fin (49 / 10)), speed = Some (Fin (16 / 5)),
               alt = Some (Fin (25 / 2)), fix_flag = True, sats = None, hdop = None,
               lastPacketTimestamp = Some 1000, lastFixTimestamp = Some 1000,
               timestamp = Some 1000\<rparr>,
       gps_file =
         Current \<lparr>lat = None, lng = Some (Fin (49 / 10)), speed = Some (Fin (16 / 5)),
                  alt = Some (Fin (25 / 2)), fix_flag = True, sats = None, hdop = None,
                  lastPacketTimestamp = Some 1000, lastFixTimestamp = Some 1000,
                  timestamp = Some 1000\<rparr>,
       gps_writes = 1\<rparr>)"
  by (simp add: receivedata_def checkKey_def nolat_query_def empty_server_def build_packet_def
      saveLatestGPS_def reconcile_def prior_data_def initial_data_def to_json_def
      json_number_def Let_def parse_eval)

text \<open>
  Claim C4, as the code has it. Every request that passes \<^verbatim>\<open>checkKey\<close> with \<^verbatim>\<open>fix\<close> equal
  to \<^verbatim>\<open>true\<close> or \<^verbatim>\<open>1\<close> is answered 200 with \<^verbatim>\<open>{status: 'ok', fix: true}\<close>, whatever its
  numeric parameters are; the variable then holds \<^verbatim>\<open>parseFloat\<close> of each of \<^verbatim>\<open>lat\<close>,
  \<^verbatim>\<open>lng\<close>, \<^verbatim>\<open>speed\<close> and \<^verbatim>\<open>alt\<close>, which is \<^verbatim>\<open>NaN\<close> for a parameter that was not sent, and
  one write of the file is attempted; when it succeeds the file holds the serialised
  object, with \<^verbatim>\<open>null\<close> in the place of such a \<^verbatim>\<open>NaN\<close>.
\<close>

theorem C4_no_validation:
  assumes "checkKey api_key (q_key q)"
    and "q_fix q = Some ''true'' \<or> q_fix q = Some ''1''"
  shows "\<exists>d. receivedata api_key now wr q st =
            (Response 200 (IngestAck True),
             saveLatestGPS now wr (build_packet (latestGPSData st) q) st) \<and>
          latestGPSData (saveLatestGPS now wr (build_packet (latestGPSData st) q) st)
            = Some d \<and>
          gps_writes (saveLatestGPS now wr (build_packet (latestGPSData st) q) st)
            = Suc (gps_writes st) \<and>
          lat d = Some (parseFloat (q_lat q)) \<and> lng d = Some (parseFloat (q_lng q)) \<and>
          speed d = Some (parseFloat (q_speed q)) \<and> alt d = Some (parseFloat (q_alt q)) \<and>
          (q_lat q = None \<longrightarrow> lat d = Some NaN) \<and> (q_lng q = None \<longrightarrow> lng d = Some NaN) \<and>
          (q_speed q = None \<longrightarrow> speed d = Some NaN) \<and> (q_alt q = None \<longrightarrow> alt d = Some NaN) \<and>
          (wr = Written \<longrightarrow>
             gps_file (saveLatestGPS now wr (build_packet (latestGPSData st) q) st)
               = Current (to_json d)) \<and>
          (q_lat q = None \<longrightarrow> lat (to_json d) = None) \<and>
          (q_lng q = None \<longrightarrow> lng (to_json d) = None) \<and>
          (q_speed q = None \<longrightarrow> speed (to_json d) = None) \<and>
          (q_alt q = None \<longrightarrow> alt (to_json d) = None)"
proof -
  let ?p = "build_packet (latestGPSData st) q"
  have fx: "p_fix ?p" using assms(2) by (simp add: build_packet_fix)
  have pos: "p_lat ?p = Some (parseFloat (q_lat q))" "p_lng ?p = Some (parseFloat (q_lng q))"
    "p_speed ?p = Some (parseFloat (q_speed q))" "p_alt ?p = Some (parseFloat (q_alt q))"
    using assms(2) by (auto simp: build_packet_def Let_def)
  have r: "receivedata api_key now wr q st =
      (Response 200 (IngestAck True), saveLatestGPS now wr ?p st)"
    using receivedata_ok [OF assms(1)] assms(2) by simp
  have w: "gps_writes (saveLatestGPS now wr ?p st) = Suc (gps_writes st)"
    by (simp add: saveLatestGPS_def Let_def)
  have f: "wr = Written \<longrightarrow>
      gps_file (saveLatestGPS now wr ?p st) = Current (to_json (reconcile now (latestGPSData st) ?p))"
    by (simp add: saveLatestGPS_def Let_def)
  have j: "lat (to_json e) = json_number (lat e)" "lng (to_json e) = json_number (lng e)"
    "speed (to_json e) = json_number (speed e)" "alt (to_json e) = json_number (alt e)" for e
    by (simp_all add: to_json_def)
  show ?thesis
    using r w fx pos f
    by (auto simp: saveLatestGPS_mem reconcile_position parseFloat_undefined j json_number_def)
qed

theorem C4_no_validation_witness:
  "\<exists>d. receivedata (Some ''k'') 1000 Written nolat_query empty_server =
          (Response 200 (IngestAck True),
           saveLatestGPS 1000 Written (build_packet None nolat_query) empty_server) \<and>
        latestGPSData (saveLatestGPS 1000 Written (build_packet None nolat_query) empty_server)
          = Some d \<and>
        lat d = Some NaN"
  using C4_no_validation [of "Some ''k''" nolat_query 1000 Written empty_server]
  by (auto simp: checkKey_def nolat_query_def empty_server_def)

text \<open>
  Claim C6. A request to \<^verbatim>\<open>/receivedata\<close> whose \<^verbatim>\<open>key\<close> differs from \<^verbatim>\<open>API_KEY\<close> is
  answered 403 and leaves the server as it was: the variable, the file and the number of
  writes are unchanged.
\<close>

theorem C6_wrong_key_rejected:
  assumes "q_key q \<noteq> api_key"
  shows "receivedata api_key now wr q st = (Response 403 (Text ''Invalid key''), st)"
  using assms by (simp add: receivedata_def checkKey_def)

theorem C6_wrong_key_rejected_witness:
  "receivedata (Some ''k'') 1000 Written (nolat_query\<lparr>q_key := Some ''guess''\<rparr>) empty_server =
     (Response 403 (Text ''Invalid key''), empty_server)"
  using C6_wrong_key_rejected
          [of "nolat_query\<lparr>q_key := Some ''guess''\<rparr>" "Some ''k''" 1000 Written empty_server]
  by (simp add: nolat_query_def)

text \<open>
  Claim C7. When the write of the file throws, a request that passes \<^verbatim>\<open>checkKey\<close> is
  still answered 200 with \<^verbatim>\<open>{status: 'ok', fix}\<close>, \<^verbatim>\<open>fix\<close> being the flag the handler
  resolved; the variable holds the reconciled object, whatever the file is left with;
  and a later \<^verbatim>\<open>loadLatestGPS\<close> returns that object, which \<^verbatim>\<open>/api/latest-gps\<close> serves.
\<close>

theorem C7_write_failure_acknowledged:
  assumes "checkKey api_key (q_key q)"
  shows "\<exists>st' d. receivedata api_key now (Threw doc) q st =
            (Response 200 (IngestAck (q_fix q = Some ''true'' \<or> q_fix q = Some ''1'')), st') \<and>
          d = reconcile now (latestGPSData st) (build_packet (latestGPSData st) q) \<and>
          latestGPSData st' = Some d \<and> gps_file st' = doc \<and>
          loadLatestGPS later st' = (Some d, st') \<and>
          latest_gps later st' = (Response 200 (FixDoc (to_json d)), st')"
  using receivedata_ok [OF assms, of now "Threw doc" st]
  by (simp add: saveLatestGPS_def Let_def loadLatestGPS_def latest_gps_def)

theorem C7_write_failure_acknowledged_witness:
  "\<exists>st' d. receivedata (Some ''k'') 1000 (Threw Corrupt) sats_query fixed_server =
            (Response 200 (IngestAck False), st') \<and>
          latestGPSData st' = Some d \<and> gps_file st' = Corrupt \<and>
          sats d = Some (Fin 3) \<and> lat d = Some (Fin 52) \<and> lastPacketTimestamp d = Some 1000 \<and>
          latest_gps 2000 st' = (Response 200 (FixDoc (to_json d)), st')"
  using C7_write_failure_acknowledged
          [of "Some ''k''" sats_query 1000 Corrupt fixed_server 2000]
  by (auto simp: checkKey_def sats_query_def fixed_server_def build_packet_def reconcile_def
      prior_data_def Let_def parse_eval)

text \<open>
  Claim C8. While the variable is \<^verbatim>\<open>null\<close> and the file does not exist,
  \<^verbatim>\<open>/api/latest-gps\<close> answers 404 with \<^verbatim>\<open>{error: "No GPS data available"}\<close>, not a fix
  document, and changes nothing.
\<close>

theorem C8_not_found_before_first_fix:
  assumes "latestGPSData st = None" and "gps_file st = NoFile"
  shows "latest_gps now st = (Response 404 (ErrorJson ''No GPS data available''), st)"
  using assms by (simp add: latest_gps_def loadLatestGPS_def)

theorem C8_not_found_before_first_fix_witness:
  "latest_gps 1000 empty_server =
     (Response 404 (ErrorJson ''No GPS data available''), empty_server)"
  using C8_not_found_before_first_fix [of empty_server 1000]
  by (simp add: empty_server_def)

section \<open>The credential list\<close>

lemma findIndex_ge: "- 1 \<le> findIndex P xs"
  by (induction xs) (auto simp: Let_def)

lemma findIndex_none: "(findIndex P xs < 0) = (\<forall>x\<in>set xs. \<not> P x)"
  using findIndex_ge [of P] by (induction xs) (auto simp: Let_def)

lemma findIndex_found:
  assumes "\<exists>x\<in>set xs. P x"
  shows "0 \<le> findIndex P xs \<and> nat (findIndex P xs) < length xs \<and>
         P (xs ! nat (findIndex P xs)) \<and> (\<forall>j < nat (findIndex P xs). \<not> P (xs ! j))"
  using assms
proof (induction xs)
  case Nil
  then show ?case by simp
next
  case (Cons x xs)
  show ?case
  proof (cases "P x")
    case True
    then show ?thesis by simp
  next
    case False
    with Cons.prems have ex: "\<exists>x\<in>set xs. P x" by simp
    note ih = Cons.IH [OF ex]
    from ih have nn: "\<not> findIndex P xs < 0" by simp
    have n: "nat (findIndex P xs + 1) = Suc (nat (findIndex P xs))" using ih by arith
    show ?thesis using False ih nn
      by (auto simp: Let_def n nth_Cons less_Suc_eq_0_disj split: nat.splits)
  qed
qed

text \<open>
  Claim C10. From no file, \<^verbatim>\<open>PUT /wifi\<close> with \<^verbatim>\<open>{ssid: "A", password: "x"}\<close> and then
  with \<^verbatim>\<open>{ssid: "A", password: "y"}\<close> returns the one-element list
  \<^verbatim>\<open>[{ssid: "A", password: "y"}]\<close>. In general, when the ssid occurs in the list the
  update replaces the password of its first entry and changes nothing else, and when it
  does not occur the pair is appended; an authenticated request with non-empty ssid and
  password returns the updated list and stores it.
\<close>

theorem C10_upsert_by_ssid:
  "fst (put_wifi (Some ''k'') (Some ''k'') Written
          \<lparr>b_ssid = Some ''A'', b_password = Some ''y''\<rparr>
          (snd (put_wifi (Some ''k'') (Some ''k'') Written
                  \<lparr>b_ssid = Some ''A'', b_password = Some ''x''\<rparr> NoWifiFile)))
     = Response 200 (WifiList [\<lparr>ssid = ''A'', password = ''y''\<rparr>]) \<and>
   ((\<exists>n\<in>set list. ssid n = s) \<longrightarrow>
      (\<exists>i<length list. ssid (list ! i) = s \<and> (\<forall>j<i. ssid (list ! j) \<noteq> s) \<and>
         upsert list s pw = list[i := \<lparr>ssid = s, password = pw\<rparr>])) \<and>
   ((\<forall>n\<in>set list. ssid n \<noteq> s) \<longrightarrow>
      upsert list s pw = list @ [\<lparr>ssid = s, password = pw\<rparr>]) \<and>
   (checkKey api_key key \<longrightarrow> s \<noteq> [] \<longrightarrow> pw \<noteq> [] \<longrightarrow>
      put_wifi api_key key Written \<lparr>b_ssid = Some s, b_password = Some pw\<rparr> (WifiDoc list) =
        (Response 200 (WifiList (upsert list s pw)), WifiDoc (upsert list s pw)))"
proof (intro conjI impI)
  show "fst (put_wifi (Some ''k'') (Some ''k'') Written
          \<lparr>b_ssid = Some ''A'', b_password = Some ''y''\<rparr>
          (snd (put_wifi (Some ''k'') (Some ''k'') Written
                  \<lparr>b_ssid = Some ''A'', b_password = Some ''x''\<rparr> NoWifiFile)))
     = Response 200 (WifiList [\<lparr>ssid = ''A'', password = ''y''\<rparr>])"
    by (simp add: put_wifi_def checkKey_def falsy_def loadWifiList_def upsert_def Let_def)
next
  assume ex: "\<exists>n\<in>set list. ssid n = s"
  let ?i = "nat (findIndex (\<lambda>n. ssid n = s) list)"
  from findIndex_found [of list "\<lambda>n. ssid n = s", OF ex]
  have f: "0 \<le> findIndex (\<lambda>n. ssid n = s) list" "?i < length list" "ssid (list ! ?i) = s"
    "\<forall>j < ?i. ssid (list ! j) \<noteq> s" by auto
  have "(list ! ?i)\<lparr>password := pw\<rparr> = \<lparr>ssid = s, password = pw\<rparr>"
    using f(3) by (cases "list ! ?i") simp
  then have "upsert list s pw = list[?i := \<lparr>ssid = s, password = pw\<rparr>]"
    using f(1) by (simp add: upsert_def Let_def)
  with f show "\<exists>i<length list. ssid (list ! i) = s \<and> (\<forall>j<i. ssid (list ! j) \<noteq> s) \<and>
         upsert list s pw = list[i := \<lparr>ssid = s, password = pw\<rparr>]" by blast
next
  assume "\<forall>n\<in>set list. ssid n \<noteq> s"
  then have "findIndex (\<lambda>n. ssid n = s) list < 0" by (simp add: findIndex_none)
  then show "upsert list s pw = list @ [\<lparr>ssid = s, password = pw\<rparr>]"
    by (simp add: upsert_def Let_def)
next
  assume "checkKey api_key key" "s \<noteq> []" "pw \<noteq> []"
  then show "put_wifi api_key key Written \<lparr>b_ssid = Some s, b_password = Some pw\<rparr>
        (WifiDoc list) =
        (Response 200 (WifiList (upsert list s pw)), WifiDoc (upsert list s pw))"
    by (simp add: put_wifi_def falsy_def loadWifiList_def Let_def)
qed

theorem C10_upsert_by_ssid_witness:
  "upsert [\<lparr>ssid = ''A'', password = ''x''\<rparr>, \<lparr>ssid = ''B'', password = ''z''\<rparr>] ''B'' ''y'' =
     [\<lparr>ssid = ''A'', password = ''x''\<rparr>, \<lparr>ssid = ''B'', password = ''y''\<rparr>] \<and>
   upsert [\<lparr>ssid = ''A'', password = ''x''\<rparr>] ''B'' ''y'' =
     [\<lparr>ssid = ''A'', password = ''x''\<rparr>, \<lparr>ssid = ''B'', password = ''y''\<rparr>] \<and>
   put_wifi (Some ''k'') (Some ''k'') Written \<lparr>b_ssid = Some ''B'', b_password = Some ''y''\<rparr>
       (WifiDoc [\<lparr>ssid = ''A'', password = ''x''\<rparr>]) =
     (Response 200
        (WifiList [\<lparr>ssid = ''A'', password = ''x''\<rparr>, \<lparr>ssid = ''B'', password = ''y''\<rparr>]),
      WifiDoc [\<lparr>ssid = ''A'', password = ''x''\<rparr>, \<lparr>ssid = ''B'', password = ''y''\<rparr>])"
  using C10_upsert_by_ssid
          [of "[\<lparr>ssid = ''A'', password = ''x''\<rparr>, \<lparr>ssid = ''B'', password = ''z''\<rparr>]"
              "''B''" "''y''" "Some ''k''" "Some ''k''"]
    C10_upsert_by_ssid
          [of "[\<lparr>ssid = ''A'', password = ''x''\<rparr>]" "''B''" "''y''" "Some ''k''" "Some ''k''"]
  by (auto simp: checkKey_def less_Suc_eq_0_disj less_Suc_eq)

section \<open>The viewer's connection status\<close>

text \<open>
  A fix document whose \<^verbatim>\<open>lat\<close>, \<^verbatim>\<open>lng\<close> or \<^verbatim>\<open>alt\<close> is \<^verbatim>\<open>null\<close> makes the drawing throw, and
  the status element keeps its text in that poll.
\<close>

lemma updateGPSData_display_throws:
  assumes "display_throws d"
  shows "snd (updateGPSData now (Some (Response 200 (FixDoc d))) tr old) = old"
  using assms by (simp add: updateGPSData_def fetchLatestGPSData_def Let_def)

text \<open>
  Claim C2. The status the viewer computes from what it fetched and the current time:
  \<^verbatim>\<open>Offline\<close> when nothing was fetched (no fix document, a 404, a failed request) or
  when the document's \<^verbatim>\<open>lastPacketTimestamp\<close> is more than 60000 ms old; otherwise
  \<^verbatim>\<open>No GPS Signal\<close> when its \<^verbatim>\<open>fix\<close> is false; otherwise \<^verbatim>\<open>Online\<close>. This is the value
  of \<^verbatim>\<open>updateConnectionStatus\<close> on the fields \<^verbatim>\<open>updateGPSData\<close> assigns, for every
  document that carries the timestamp, and it is the text \<^verbatim>\<open>updateGPSData\<close> leaves in
  the status element whenever drawing the position does not throw first.
\<close>

theorem C2_connection_status:
  "updateConnectionStatus now (updateGPSData_fields None tr) old = ''Offline'' \<and>
   (lastPacketTimestamp d = Some t \<longrightarrow>
      updateConnectionStatus now (updateGPSData_fields (Some d) tr) old =
        (if now - t > 60000 then ''Offline''
         else if \<not> fix_flag d then ''No GPS Signal'' else ''Online'')) \<and>
   snd (updateGPSData now None tr old) = ''Offline'' \<and>
   snd (updateGPSData now (Some (Response 404 (ErrorJson e))) tr old) = ''Offline'' \<and>
   (lastPacketTimestamp d = Some t \<longrightarrow> \<not> display_throws d \<longrightarrow>
      snd (updateGPSData now (Some (Response 200 (FixDoc d))) tr old) =
        (if now - t > 60000 then ''Offline''
         else if \<not> fix_flag d then ''No GPS Signal'' else ''Online''))"
  by (auto simp: updateConnectionStatus_def updateGPSData_fields_def updateGPSData_def
      fetchLatestGPSData_def Let_def)

theorem C2_connection_status_witness:
  "updateConnectionStatus 161000 (updateGPSData_fields (Some online_doc) new_tracker) []
     = ''Offline'' \<and>
   updateConnectionStatus 161000
      (updateGPSData_fields (Some (online_doc\<lparr>fix_flag := False\<rparr>)) new_tracker) []
     = ''Offline'' \<and>
   updateConnectionStatus 101000
      (updateGPSData_fields (Some (online_doc\<lparr>fix_flag := False\<rparr>)) new_tracker) []
     = ''No GPS Signal'' \<and>
   updateConnectionStatus 101000 (updateGPSData_fields (Some online_doc) new_tracker) []
     = ''Online'' \<and>
   snd (updateGPSData 101000 (Some (Response 200 (FixDoc online_doc))) new_tracker [])
     = ''Online''"
  using C2_connection_status [of 161000 new_tracker "[]" online_doc 100000]
    C2_connection_status [of 161000 new_tracker "[]" "online_doc\<lparr>fix_flag := False\<rparr>" 100000]
    C2_connection_status [of 101000 new_tracker "[]" "online_doc\<lparr>fix_flag := False\<rparr>" 100000]
    C2_connection_status [of 101000 new_tracker "[]" online_doc 100000]
  by (simp add: online_doc_def display_throws_def)

section \<open>The device's connections\<close>

lemma fetches_update:
  "fetches (dev\<lparr>wifi_connected := c\<rparr>) = fetches dev"
  "fetches (dev\<lparr>inBackoff := b\<rparr>) = fetches dev"
  "fetches (dev\<lparr>lastReconnectAttempt := m\<rparr>) = fetches dev"
  "fetches (dev\<lparr>events := es @ [TryConnect s pw]\<rparr>) = count_list es HttpGetWifi"
  by (simp_all add: fetches_def)

lemma try_dynamic_fst:
  "fst (try_dynamic env ns dev) = (\<exists>n\<in>set ns. reachable env (ssid n) (password n))"
  by (induction ns arbitrary: dev) (auto simp: tryConnect_def split: bool.splits)

lemma try_dynamic_fetches: "fetches (snd (try_dynamic env ns dev)) = fetches dev"
  by (induction ns arbitrary: dev) (auto simp: tryConnect_def fetches_def split: bool.splits)

lemma try_dynamic_connected:
  "\<not> wifi_connected dev \<Longrightarrow>
   wifi_connected (snd (try_dynamic env ns dev)) = fst (try_dynamic env ns dev)"
  by (induction ns arbitrary: dev) (auto simp: tryConnect_def split: bool.splits)

lemma fetchWifiList_fetches:
  "fetches (fetchWifiList env dev) =
     (if wifi_connected dev then Suc (fetches dev) else fetches dev)"
  by (auto simp: fetchWifiList_def fetches_def esp_saveWifiList_def Let_def
      split: option.splits)

lemma fetchWifiList_connected: "wifi_connected (fetchWifiList env dev) = wifi_connected dev"
  by (auto simp: fetchWifiList_def esp_saveWifiList_def Let_def split: option.splits)

lemma connectWiFi_fetches:
  assumes "\<not> wifi_connected dev"
  shows "fetches (connectWiFi env millis dev) =
     (if (\<exists>n\<in>set (dynamicNetworks dev). reachable env (ssid n) (password n)) then fetches dev
      else if reachable env defaultSSID defaultPASS then Suc (fetches dev) else fetches dev)"
    and "wifi_connected (connectWiFi env millis dev) =
     ((\<exists>n\<in>set (dynamicNetworks dev). reachable env (ssid n) (password n)) \<or>
      reachable env defaultSSID defaultPASS)"
proof -
  obtain b dev' where td: "try_dynamic env (dynamicNetworks dev) dev = (b, dev')"
    by (cases "try_dynamic env (dynamicNetworks dev) dev")
  have b: "b = (\<exists>n\<in>set (dynamicNetworks dev). reachable env (ssid n) (password n))"
    using try_dynamic_fst [of env "dynamicNetworks dev" dev] td by simp
  have f: "fetches dev' = fetches dev"
    using try_dynamic_fetches [of env "dynamicNetworks dev" dev] td by simp
  have c: "wifi_connected dev' = b"
    using try_dynamic_connected [OF assms, of env "dynamicNetworks dev"] td by simp
  show "fetches (connectWiFi env millis dev) =
     (if (\<exists>n\<in>set (dynamicNetworks dev). reachable env (ssid n) (password n)) then fetches dev
      else if reachable env defaultSSID defaultPASS then Suc (fetches dev) else fetches dev)"
    using assms td b f
    by (auto simp: connectWiFi_def tryConnect_def fetchWifiList_fetches fetches_update
        fetches_def [of dev'] fetches_def [of dev] split: bool.splits)
  show "wifi_connected (connectWiFi env millis dev) =
     ((\<exists>n\<in>set (dynamicNetworks dev). reachable env (ssid n) (password n)) \<or>
      reachable env defaultSSID defaultPASS)"
    using assms td b c
    by (auto simp: connectWiFi_def tryConnect_def fetchWifiList_connected split: bool.splits)
qed

lemma boot_loaded:
  "\<not> wifi_connected (esp_loadWifiList (boot saved))"
  "dynamicNetworks (esp_loadWifiList (boot saved)) = saved_list saved"
  "fetches (esp_loadWifiList (boot saved)) = 0"
  by (auto simp: esp_loadWifiList_def boot_def saved_list_def fetches_def split: option.splits)

text \<open>
  Claim C5, as stated, fails at boot: \<^verbatim>\<open>setup()\<close> calls \<^verbatim>\<open>fetchWifiList()\<close> after
  \<^verbatim>\<open>connectWiFi()\<close> whichever network connected. A device that boots with the learned
  network \<^verbatim>\<open>home\<close> in reach connects to it at the first attempt, never tries the
  fallback, and then GETs the credential list.
\<close>

theorem C5_boot_fetches_after_dynamic:
  "events (esp_setup home_env 0 (Some home_list)) = [TryConnect ''home'' ''pw'', HttpGetWifi]"
  by (simp add: esp_setup_def boot_def esp_loadWifiList_def connectWiFi_def tryConnect_def
      fetchWifiList_def home_env_def home_list_def)

text \<open>
  Claim C5, as the code has it. \<^verbatim>\<open>connectWiFi()\<close>, called while disconnected, GETs the
  credential list once when no learned network connected and the fallback did, and not
  at all otherwise; called while connected it does nothing. The reconnection at the head
  of \<^verbatim>\<open>loop()\<close> therefore fetches only after a connection through the fallback. \<^verbatim>\<open>setup()\<close>
  fetches once more after \<^verbatim>\<open>connectWiFi()\<close> whenever the device is connected: at boot the
  list is fetched once after a connection through a learned network, twice after one
  through the fallback, and not at all when nothing connected.
\<close>

theorem C5_fetch_after_connect:
  "(\<not> wifi_connected dev \<longrightarrow>
      fetches (connectWiFi env millis dev) =
        (if (\<exists>n\<in>set (dynamicNetworks dev). reachable env (ssid n) (password n))
         then fetches dev
         else if reachable env defaultSSID defaultPASS then Suc (fetches dev)
         else fetches dev)) \<and>
   (wifi_connected dev \<longrightarrow> connectWiFi env millis dev = dev) \<and>
   fetches (loop_reconnect env t millis dev) =
     (if \<not> wifi_connected dev \<and>
         (inBackoff dev \<longrightarrow> t - lastReconnectAttempt dev > 30000) \<and>
         \<not> (\<exists>n\<in>set (dynamicNetworks dev). reachable env (ssid n) (password n)) \<and>
         reachable env defaultSSID defaultPASS
      then Suc (fetches dev) else fetches dev) \<and>
   fetches (esp_setup env millis saved) =
     (if (\<exists>n\<in>set (saved_list saved). reachable env (ssid n) (password n)) then 1
      else if reachable env defaultSSID defaultPASS then 2 else 0)"
proof (intro conjI impI)
  assume "\<not> wifi_connected dev"
  then show "fetches (connectWiFi env millis dev) =
        (if (\<exists>n\<in>set (dynamicNetworks dev). reachable env (ssid n) (password n))
         then fetches dev
         else if reachable env defaultSSID defaultPASS then Suc (fetches dev)
         else fetches dev)"
    by (rule connectWiFi_fetches)
next
  assume "wifi_connected dev"
  then show "connectWiFi env millis dev = dev" by (simp add: connectWiFi_def)
next
  show "fetches (loop_reconnect env t millis dev) =
     (if \<not> wifi_connected dev \<and>
         (inBackoff dev \<longrightarrow> t - lastReconnectAttempt dev > 30000) \<and>
         \<not> (\<exists>n\<in>set (dynamicNetworks dev). reachable env (ssid n) (password n)) \<and>
         reachable env defaultSSID defaultPASS
      then Suc (fetches dev) else fetches dev)"
    by (cases "wifi_connected dev") (auto simp: loop_reconnect_def connectWiFi_fetches)
next
  let ?d = "esp_loadWifiList (boot saved)"
  have "fetches (esp_setup env millis saved) =
      (if wifi_connected (connectWiFi env millis ?d)
       then Suc (fetches (connectWiFi env millis ?d))
       else fetches (connectWiFi env millis ?d))"
    by (simp add: esp_setup_def fetchWifiList_fetches)
  then show "fetches (esp_setup env millis saved) =
     (if (\<exists>n\<in>set (saved_list saved). reachable env (ssid n) (password n)) then 1
      else if reachable env defaultSSID defaultPASS then 2 else 0)"
    by (simp add: connectWiFi_fetches [OF boot_loaded(1)] boot_loaded)
qed

theorem C5_fetch_after_connect_witness:
  "fetches (connectWiFi home_env 0 (esp_loadWifiList (boot (Some home_list)))) = 0 \<and>
   fetches (esp_setup home_env 0 (Some home_list)) = 1"
  using C5_fetch_after_connect
          [of "esp_loadWifiList (boot (Some home_list))" home_env 0 0 "Some home_list"]
  by (simp add: boot_loaded saved_list_def home_env_def home_list_def)

end
